theory Spec2Isabelle
  imports Main
begin

section \<open>Errors and outcomes\<close>

text \<open>
  A Go \<open>error\<close> value. \<open>SdkError\<close> is an error produced by a collaborator (the AWS SDK),
  \<open>Errorf m\<close> is \<open>fmt.Errorf\<close> with the finished message \<open>m\<close>, and \<open>Wrapf p e\<close> is
  \<open>fmt.Errorf(p + "%w", e)\<close>: the message is \<open>p\<close> followed by the message of \<open>e\<close>, and
  \<open>e\<close> stays reachable by unwrapping.
\<close>

datatype error = SdkError string | Errorf string | Wrapf string error

fun Error_msg :: "error \<Rightarrow> string" where
  "Error_msg (SdkError m) = m"
| "Error_msg (Errorf m) = m"
| "Error_msg (Wrapf p e) = p @ Error_msg e"

text \<open>
  What a call of the package does: it returns a value with a nil error (\<open>Ok\<close>), returns a
  non-nil error (\<open>Err\<close>), or crashes with a run-time panic (\<open>Panic\<close>), which in this package
  is always a nil pointer dereference.
\<close>

datatype 'a outcome = Ok 'a | Err error | Panic

section \<open>Data of the SDK\<close>

text \<open>
  Pointers that the source tests against nil, or dereferences without a test, are options.
  The elements of \<open>Reservations\<close> and \<open>Instances\<close> are allocated by the SDK's unmarshaller
  and are modelled as values; the pointers to the identifiers that the package itself
  builds (\<open>pointer.StringPtr\<close>, \<open>&instanceIDs[i]\<close>) are never nil and are modelled as strings.
\<close>

record Tag =
  Key :: "string option"
  Value :: "string option"

record Instance =
  InstanceId :: "string option"
  Tags :: "Tag option list"

record Reservation =
  Instances :: "Instance list"

record DescribeInstancesOutput =
  Reservations :: "Reservation list"

record Filter =
  Name :: string
  Values :: "string list"

record DescribeInstancesInput =
  Filters :: "Filter list"
  InstanceIds :: "string list"

record EC2InstanceIdentityDocument =
  AccountID :: string

record Config =
  Region :: "string option"
  CredentialsChainVerboseErrors :: "bool option"

datatype Session = Session Config

datatype EC2Metadata = EC2Metadata Session

datatype EC2 = EC2 Session

datatype FieldLogger = FieldLogger string

section \<open>The collaborators\<close>

text \<open>
  Every call to a collaborator is appended to a trace, oldest call first. The answers of
  the collaborators are given by a \<open>remote\<close>: each answer may depend on the trace of all
  calls made before it, so the same request can fail once and succeed later. The
  context argument of the Go functions is only handed on to the collaborators; its
  cancellation is one of the reasons for a collaborator to answer with an error.
\<close>

datatype call =
    NewSession_call "Config list"
  | CredentialsGet_call Session
  | RegionWithContext_call EC2Metadata
  | GetInstanceIdentityDocumentWithContext_call EC2Metadata
  | GetMetadataWithContext_call EC2Metadata string
  | DescribeInstancesWithContext_call EC2 DescribeInstancesInput

record remote =
  NewSession :: "call list \<Rightarrow> Config list \<Rightarrow> error + Session"
  CredentialsGet :: "call list \<Rightarrow> Session \<Rightarrow> error + unit"
  RegionWithContext :: "call list \<Rightarrow> EC2Metadata \<Rightarrow> error + string"
  GetInstanceIdentityDocumentWithContext ::
    "call list \<Rightarrow> EC2Metadata \<Rightarrow> error + EC2InstanceIdentityDocument"
  GetMetadataWithContext :: "call list \<Rightarrow> EC2Metadata \<Rightarrow> string \<Rightarrow> error + string"
  DescribeInstancesWithContext ::
    "call list \<Rightarrow> EC2 \<Rightarrow> DescribeInstancesInput \<Rightarrow> error + DescribeInstancesOutput"

section \<open>The client\<close>

record client =
  log :: "FieldLogger option"
  sess :: "Session option"
  metaClient :: "EC2Metadata option"
  ec2Client :: "EC2 option"
  region :: "string option"
  accountID :: "string option"
  clusterName :: "string option"

definition tagEKSK8sCluster :: string where
  "tagEKSK8sCluster = ''k8s.io/cluster/''"

definition tagEKSKubernetesCluster :: string where
  "tagEKSKubernetesCluster = ''kubernetes.io/cluster/''"

definition tagKOPSKubernetesCluster :: string where
  "tagKOPSKubernetesCluster = ''KubernetesCluster''"

definition owned :: string where
  "owned = ''owned''"

definition eksClusterTags :: "string list" where
  "eksClusterTags = [tagEKSK8sCluster, tagEKSKubernetesCluster]"

subsection \<open>Construction\<close>

text \<open>
  A configuration step gets the client under construction and the trace, and gives back
  its outcome with the client and the trace as it left them.
\<close>

type_synonym Opt = "client \<Rightarrow> call list \<Rightarrow> unit outcome \<times> client \<times> call list"

text \<open>The loop of \<open>New\<close> over the steps.\<close>

fun apply_opts :: "Opt list \<Rightarrow> client \<Rightarrow> call list \<Rightarrow> unit outcome \<times> client \<times> call list" where
  "apply_opts [] c w = (Ok (), c, w)"
| "apply_opts (opt # opts) c w =
     (case opt c w of
        (Ok u, c', w') \<Rightarrow> apply_opts opts c' w'
      | (Err e, c', w') \<Rightarrow> (Err e, c', w')
      | (Panic, c', w') \<Rightarrow> (Panic, c', w'))"

definition zero_client :: "FieldLogger option \<Rightarrow> client" where
  "zero_client lg = \<lparr>log = lg, sess = None, metaClient = None, ec2Client = None,
     region = None, accountID = None, clusterName = None\<rparr>"

text \<open>\<open>New\<close> returns the client with a nil error, or no client with the error of a step.\<close>

definition New :: "FieldLogger option \<Rightarrow> Opt list \<Rightarrow> call list \<Rightarrow> client outcome \<times> call list" where
  "New lg opts w =
     (case apply_opts opts (zero_client lg) w of
        (Ok u, c, w') \<Rightarrow> (Ok c, w')
      | (Err e, c, w') \<Rightarrow> (Err e, w')
      | (Panic, c, w') \<Rightarrow> (Panic, w'))"

definition WithEC2Client :: "remote \<Rightarrow> Opt" where
  "WithEC2Client env c w =
     (case region c of
        None \<Rightarrow> (Panic, c, w)
      | Some r \<Rightarrow>
          (let cfgs = [\<lparr>Region = Some r, CredentialsChainVerboseErrors = Some True\<rparr>];
               w' = w @ [NewSession_call cfgs]
           in case NewSession env w cfgs of
                Inl err \<Rightarrow> (Err (Wrapf ''creating aws sdk session: '' err), c, w')
              | Inr s \<Rightarrow> (Ok (), c\<lparr>sess := Some s, ec2Client := Some (EC2 s)\<rparr>, w')))"

definition WithValidateCredentials :: "remote \<Rightarrow> Opt" where
  "WithValidateCredentials env c w =
     (case sess c of
        None \<Rightarrow> (Panic, c, w)
      | Some s \<Rightarrow>
          (case CredentialsGet env w s of
             Inl err \<Rightarrow>
               (Err (Wrapf ''validating aws credentials: '' err), c, w @ [CredentialsGet_call s])
           | Inr u \<Rightarrow> (Ok (), c, w @ [CredentialsGet_call s])))"

definition WithMetadata :: "string \<Rightarrow> string \<Rightarrow> string \<Rightarrow> Opt" where
  "WithMetadata accountID' region' clusterName' c w =
     (Ok (), c\<lparr>accountID := Some accountID', region := Some region',
                clusterName := Some clusterName'\<rparr>, w)"

definition WithMetadataDiscovery :: "remote \<Rightarrow> Opt" where
  "WithMetadataDiscovery env c w =
     (let w1 = w @ [NewSession_call []]
      in case NewSession env w [] of
           Inl err \<Rightarrow> (Err (Wrapf ''creating metadata session: '' err), c, w1)
         | Inr metaSess \<Rightarrow>
             (let m = EC2Metadata metaSess;
                  c1 = c\<lparr>metaClient := Some m\<rparr>;
                  w2 = w1 @ [RegionWithContext_call m]
              in case RegionWithContext env w1 m of
                   Inl err \<Rightarrow> (Err (Wrapf ''getting instance region: '' err), c1, w2)
                 | Inr r \<Rightarrow> (Ok (), c1\<lparr>region := Some r\<rparr>, w2)))"

subsection \<open>The scalar getters\<close>

definition GetRegion :: "remote \<Rightarrow> client \<Rightarrow> call list \<Rightarrow> string outcome \<times> client \<times> call list" where
  "GetRegion env c w =
     (case region c of
        Some r \<Rightarrow> (Ok r, c, w)
      | None \<Rightarrow>
          (case metaClient c of
             None \<Rightarrow> (Panic, c, w)
           | Some m \<Rightarrow>
               (case RegionWithContext env w m of
                  Inl err \<Rightarrow> (Err err, c, w @ [RegionWithContext_call m])
                | Inr r \<Rightarrow> (Ok r, c\<lparr>region := Some r\<rparr>, w @ [RegionWithContext_call m]))))"

definition GetAccountID :: "remote \<Rightarrow> client \<Rightarrow> call list \<Rightarrow> string outcome \<times> client \<times> call list" where
  "GetAccountID env c w =
     (case accountID c of
        Some a \<Rightarrow> (Ok a, c, w)
      | None \<Rightarrow>
          (case metaClient c of
             None \<Rightarrow> (Panic, c, w)
           | Some m \<Rightarrow>
               (case GetInstanceIdentityDocumentWithContext env w m of
                  Inl err \<Rightarrow> (Err err, c, w @ [GetInstanceIdentityDocumentWithContext_call m])
                | Inr resp \<Rightarrow>
                    (Ok (AccountID resp), c\<lparr>accountID := Some (AccountID resp)\<rparr>,
                     w @ [GetInstanceIdentityDocumentWithContext_call m]))))"

subsection \<open>Cluster name discovery\<close>

text \<open>\<open>strings.HasPrefix\<close> and \<open>strings.TrimPrefix\<close> of the Go library, on byte strings.\<close>

definition HasPrefix :: "string \<Rightarrow> string \<Rightarrow> bool" where
  "HasPrefix s p = (length p \<le> length s \<and> take (length p) s = p)"

definition TrimPrefix :: "string \<Rightarrow> string \<Rightarrow> string" where
  "TrimPrefix s p = (if HasPrefix s p then drop (length p) s else s)"

text \<open>The inner loop of \<open>getClusterName\<close> over the ownership prefixes: \<open>Some\<close> is its return.\<close>

fun match_clusterTags :: "string list \<Rightarrow> string \<Rightarrow> string \<Rightarrow> string option" where
  "match_clusterTags [] k v = None"
| "match_clusterTags (clusterTag # rest) k v =
     (if HasPrefix k clusterTag \<and> v = owned then Some (TrimPrefix k clusterTag)
      else match_clusterTags rest k v)"

fun getClusterName :: "Tag option list \<Rightarrow> string" where
  "getClusterName [] = ''''"
| "getClusterName (None # tags) = getClusterName tags"
| "getClusterName (Some tag # tags) =
     (case Key tag of
        None \<Rightarrow> getClusterName tags
      | Some k \<Rightarrow>
          (case Value tag of
             None \<Rightarrow> getClusterName tags
           | Some v \<Rightarrow>
               (case match_clusterTags eksClusterTags k v of
                  Some n \<Rightarrow> n
                | None \<Rightarrow> if k = tagKOPSKubernetesCluster then v else getClusterName tags)))"

definition GetClusterName :: "remote \<Rightarrow> client \<Rightarrow> call list \<Rightarrow> string outcome \<times> client \<times> call list" where
  "GetClusterName env c w =
     (case clusterName c of
        Some n \<Rightarrow> (Ok n, c, w)
      | None \<Rightarrow>
          (case metaClient c of
             None \<Rightarrow> (Panic, c, w)
           | Some m \<Rightarrow>
               (let w1 = w @ [GetMetadataWithContext_call m ''instance-id'']
                in case GetMetadataWithContext env w m ''instance-id'' of
                     Inl err \<Rightarrow> (Err (Wrapf ''getting instance id from metadata: '' err), c, w1)
                   | Inr instanceID \<Rightarrow>
                       (case ec2Client c of
                          None \<Rightarrow> (Panic, c, w1)
                        | Some ec2 \<Rightarrow>
                            (let req = \<lparr>Filters = [], InstanceIds = [instanceID]\<rparr>;
                                 w2 = w1 @ [DescribeInstancesWithContext_call ec2 req]
                             in case DescribeInstancesWithContext env w1 ec2 req of
                                  Inl err \<Rightarrow>
                                    (Err (Wrapf (''describing instance_id='' @ instanceID @ '': '') err),
                                     c, w2)
                                | Inr resp \<Rightarrow>
                                    (case Reservations resp of
                                       [] \<Rightarrow>
                                         (Err (Errorf (''no reservations found for instance_id='' @ instanceID)),
                                          c, w2)
                                     | r0 # rs \<Rightarrow>
                                         (case Instances r0 of
                                            [] \<Rightarrow>
                                              (Err (Errorf (''no instances found for instance_id='' @ instanceID)),
                                               c, w2)
                                          | i0 # is \<Rightarrow>
                                              if Tags i0 = [] then
                                                (Err (Errorf (''no tags found for instance_id='' @ instanceID)),
                                                 c, w2)
                                              else
                                                (let name = getClusterName (Tags i0)
                                                 in if name = '''' then
                                                      (Err (Errorf (''discovering cluster name: instance cluster tags not found for instance_id='' @ instanceID)),
                                                       c, w2)
                                                    else (Ok name, c\<lparr>clusterName := Some name\<rparr>, w2)))))))))"

subsection \<open>Batch lookup\<close>

definition batchSize :: nat where
  "batchSize = 20"

text \<open>
  The request of one batch. \<open>idsPtr[i:j]\<close> with \<open>j\<close> the smaller of \<open>i + batchSize\<close> and the
  length is \<open>take (j - i) (drop i idsPtr)\<close>; the conversion of the two bounds to
  \<open>float64\<close> and back is exact for every length a slice can have.
\<close>

definition batch_request :: "string list \<Rightarrow> DescribeInstancesInput" where
  "batch_request batch = \<lparr>Filters = [\<lparr>Name = ''instance-id'', Values = batch\<rparr>], InstanceIds = []\<rparr>"

function batch_loop ::
  "remote \<Rightarrow> EC2 option \<Rightarrow> string list \<Rightarrow> nat \<Rightarrow> Instance list \<Rightarrow> call list
     \<Rightarrow> Instance list outcome \<times> call list" where
  "batch_loop env ec2 idsPtr i instances w =
     (if i < length idsPtr then
        (let batch = take (min (i + batchSize) (length idsPtr) - i) (drop i idsPtr);
             req = batch_request batch
         in case ec2 of
              None \<Rightarrow> (Panic, w)
            | Some h \<Rightarrow>
                (case DescribeInstancesWithContext env w h req of
                   Inl err \<Rightarrow>
                     (Err (Wrapf ''describing instances: '' err),
                      w @ [DescribeInstancesWithContext_call h req])
                 | Inr resp \<Rightarrow>
                     batch_loop env ec2 idsPtr (i + batchSize)
                       (instances @ concat (map Instances (Reservations resp)))
                       (w @ [DescribeInstancesWithContext_call h req])))
      else (Ok instances, w))"
  by pat_completeness auto
termination
  by (relation "measure (\<lambda>(env, ec2, idsPtr, i, instances, w). length idsPtr - i)")
     (auto simp: batchSize_def)

text \<open>The client is not changed by the batch lookup, so only the trace is returned with the result.\<close>

definition GetInstancesByInstanceIDs ::
  "remote \<Rightarrow> client \<Rightarrow> string list \<Rightarrow> call list \<Rightarrow> Instance list outcome \<times> call list" where
  "GetInstancesByInstanceIDs env c instanceIDs w = batch_loop env (ec2Client c) instanceIDs 0 [] w"

section \<open>The specification's words as definitions\<close>

text \<open>
  The name that one tag yields by the two rules of the specification, written from its
  words and with its literals: a key with an ownership prefix and the value \<open>owned\<close> yields
  the key without the prefix; otherwise the key \<open>KubernetesCluster\<close> yields the value. A nil
  tag, or a tag without key or value, is not a key/value pair and yields nothing.
\<close>

definition spec_tag_name :: "Tag option \<Rightarrow> string option" where
  "spec_tag_name t =
     (case t of
        None \<Rightarrow> None
      | Some tg \<Rightarrow>
          (case Key tg of
             None \<Rightarrow> None
           | Some k \<Rightarrow>
               (case Value tg of
                  None \<Rightarrow> None
                | Some v \<Rightarrow>
                    if HasPrefix k ''k8s.io/cluster/'' \<and> v = ''owned''
                      then Some (drop (length ''k8s.io/cluster/'') k)
                    else if HasPrefix k ''kubernetes.io/cluster/'' \<and> v = ''owned''
                      then Some (drop (length ''kubernetes.io/cluster/'') k)
                    else if k = ''KubernetesCluster'' then Some v
                    else None)))"

text \<open>
  The partition of a list into consecutive chunks of at most \<open>n\<close> elements, in the order
  of the list.
\<close>

function spec_chunks :: "nat \<Rightarrow> 'a list \<Rightarrow> 'a list list" where
  "spec_chunks n xs = (if n = 0 \<or> xs = [] then [] else take n xs # spec_chunks n (drop n xs))"
  by pat_completeness auto
termination
  by (relation "measure (\<lambda>(n, xs). length xs)") auto

section \<open>The batch loop as a recursion over the chunks\<close>

text \<open>
  What the loop of \<open>GetInstancesByInstanceIDs\<close> does with a list of batches, one call for
  each batch; \<open>batch_loop_describe_batches\<close> below shows that the loop over the index is
  this recursion on the chunks of the identifiers.
\<close>

fun describe_batches ::
  "remote \<Rightarrow> EC2 \<Rightarrow> string list list \<Rightarrow> Instance list \<Rightarrow> call list
     \<Rightarrow> Instance list outcome \<times> call list" where
  "describe_batches env h [] instances w = (Ok instances, w)"
| "describe_batches env h (b # bs) instances w =
     (case DescribeInstancesWithContext env w h (batch_request b) of
        Inl err \<Rightarrow>
          (Err (Wrapf ''describing instances: '' err),
           w @ [DescribeInstancesWithContext_call h (batch_request b)])
      | Inr resp \<Rightarrow>
          describe_batches env h bs (instances @ concat (map Instances (Reservations resp)))
            (w @ [DescribeInstancesWithContext_call h (batch_request b)]))"

definition instances_of :: "DescribeInstancesOutput \<Rightarrow> Instance list" where
  "instances_of resp = concat (map Instances (Reservations resp))"

section \<open>Sample collaborators and clients\<close>

text \<open>
  A collaborator set that answers every call with the error \<open>unavailable\<close> while \<open>down\<close>
  holds of the calls made so far, and with fixed answers otherwise; \<open>answer\<close> gives the
  description for a request.
\<close>

definition stub_remote ::
  "(call list \<Rightarrow> bool) \<Rightarrow> (DescribeInstancesInput \<Rightarrow> DescribeInstancesOutput) \<Rightarrow> remote" where
  "stub_remote down answer =
     \<lparr>NewSession = (\<lambda>w cfgs. if down w then Inl (SdkError ''unavailable'')
          else Inr (Session (case cfgs of
                               [] \<Rightarrow> \<lparr>Region = None, CredentialsChainVerboseErrors = None\<rparr>
                             | cfg # rest \<Rightarrow> cfg))),
      CredentialsGet = (\<lambda>w s. if down w then Inl (SdkError ''unavailable'') else Inr ()),
      RegionWithContext = (\<lambda>w m. if down w then Inl (SdkError ''unavailable'') else Inr ''eu-west-1''),
      GetInstanceIdentityDocumentWithContext =
        (\<lambda>w m. if down w then Inl (SdkError ''unavailable'') else Inr \<lparr>AccountID = ''123456789012''\<rparr>),
      GetMetadataWithContext = (\<lambda>w m p. if down w then Inl (SdkError ''unavailable'') else Inr ''i-0abc''),
      DescribeInstancesWithContext =
        (\<lambda>w h req. if down w then Inl (SdkError ''unavailable'') else Inr (answer req))\<rparr>"

definition node_client :: client where
  "node_client =
     \<lparr>log = None,
      sess = Some (Session \<lparr>Region = Some ''eu-west-1'', CredentialsChainVerboseErrors = Some True\<rparr>),
      metaClient = Some (EC2Metadata (Session \<lparr>Region = None, CredentialsChainVerboseErrors = None\<rparr>)),
      ec2Client = Some (EC2 (Session \<lparr>Region = Some ''eu-west-1'', CredentialsChainVerboseErrors = Some True\<rparr>)),
      region = None, accountID = None, clusterName = None\<rparr>"

definition tagged :: "Tag option list \<Rightarrow> DescribeInstancesInput \<Rightarrow> DescribeInstancesOutput" where
  "tagged tags req =
     \<lparr>Reservations = [\<lparr>Instances = [\<lparr>InstanceId = Some ''i-0abc'', Tags = tags\<rparr>]\<rparr>]\<rparr>"

definition always_up :: "call list \<Rightarrow> bool" where
  "always_up w = False"

definition always_down :: "call list \<Rightarrow> bool" where
  "always_down w = True"

definition down_at :: "nat \<Rightarrow> call list \<Rightarrow> bool" where
  "down_at n w = (length w = n)"

definition echo :: "DescribeInstancesInput \<Rightarrow> DescribeInstancesOutput" where
  "echo req =
     \<lparr>Reservations =
        map (\<lambda>f. \<lparr>Instances = map (\<lambda>i. \<lparr>InstanceId = Some i, Tags = []\<rparr>) (Values f)\<rparr>) (Filters req)\<rparr>"

definition ids45 :: "string list" where
  "ids45 = map (\<lambda>n. ''i-'' @ replicate n (CHR ''a'')) [0..<45]"

section \<open>Cluster name discovery from tags\<close>

lemma match_eksClusterTags:
  "match_clusterTags eksClusterTags k v =
     (if HasPrefix k ''k8s.io/cluster/'' \<and> v = ''owned''
        then Some (drop (length ''k8s.io/cluster/'') k)
      else if HasPrefix k ''kubernetes.io/cluster/'' \<and> v = ''owned''
        then Some (drop (length ''kubernetes.io/cluster/'') k)
      else None)"
  by (simp add: eksClusterTags_def tagEKSK8sCluster_def tagEKSKubernetesCluster_def owned_def
      TrimPrefix_def)

lemma getClusterName_skip:
  "spec_tag_name t = None \<Longrightarrow> getClusterName (t # tags) = getClusterName tags"
  by (cases t)
     (auto simp: spec_tag_name_def match_eksClusterTags tagKOPSKubernetesCluster_def
           split: option.splits if_splits)

lemma getClusterName_hit:
  "spec_tag_name t = Some n \<Longrightarrow> getClusterName (t # tags) = n"
  by (cases t)
     (auto simp: spec_tag_name_def match_eksClusterTags tagKOPSKubernetesCluster_def
           split: option.splits if_splits)

lemma getClusterName_append_hit:
  assumes "\<forall>u \<in> set pre. spec_tag_name u = None" and "spec_tag_name t = Some n"
  shows "getClusterName (pre @ t # post) = n"
  using assms by (induction pre) (simp_all add: getClusterName_skip getClusterName_hit)

lemma getClusterName_no_match:
  "\<forall>u \<in> set tags. spec_tag_name u = None \<Longrightarrow> getClusterName tags = ''''"
  by (induction tags) (simp_all add: getClusterName_skip)

text \<open>
  C1: the tags are scanned in their order, and the first tag that matches one of the two
  rules decides the result, whatever comes after it: when no tag of \<open>pre\<close> matches and
  \<open>t\<close> yields the name \<open>n\<close> (its key without the ownership prefix when the value is
  \<open>owned\<close>, otherwise its value when the key is \<open>KubernetesCluster\<close>), the result for
  \<open>pre @ t # post\<close> is \<open>n\<close>.
\<close>

theorem getClusterName_first_match:
  assumes "\<forall>u \<in> set pre. spec_tag_name u = None" and "spec_tag_name t = Some n"
  shows "getClusterName (pre @ t # post) = n"
  using assms by (rule getClusterName_append_hit)

theorem getClusterName_first_match_witness:
  "getClusterName
     ([None, Some \<lparr>Key = Some ''Name'', Value = Some ''node-1''\<rparr>,
       Some \<lparr>Key = Some ''kubernetes.io/cluster/prod'', Value = None\<rparr>]
      @ Some \<lparr>Key = Some ''kubernetes.io/cluster/prod'', Value = Some ''owned''\<rparr>
      # [Some \<lparr>Key = Some ''KubernetesCluster'', Value = Some ''legacy''\<rparr>,
         Some \<lparr>Key = Some ''k8s.io/cluster/other'', Value = Some ''owned''\<rparr>]) = ''prod''"
  by (rule getClusterName_first_match) (simp_all add: spec_tag_name_def HasPrefix_def)

section \<open>The paths through \<open>GetClusterName\<close>\<close>

lemma GetClusterName_discovery:
  assumes "clusterName c = None" and "metaClient c = Some m" and "ec2Client c = Some h"
    and "GetMetadataWithContext env w m ''instance-id'' = Inr iid"
    and "DescribeInstancesWithContext env (w @ [GetMetadataWithContext_call m ''instance-id''])
           h \<lparr>Filters = [], InstanceIds = [iid]\<rparr> = Inr resp"
  shows "GetClusterName env c w =
     (let w2 = w @ [GetMetadataWithContext_call m ''instance-id'',
                    DescribeInstancesWithContext_call h \<lparr>Filters = [], InstanceIds = [iid]\<rparr>]
      in case Reservations resp of
           [] \<Rightarrow> (Err (Errorf (''no reservations found for instance_id='' @ iid)), c, w2)
         | r0 # rs \<Rightarrow>
             (case Instances r0 of
                [] \<Rightarrow> (Err (Errorf (''no instances found for instance_id='' @ iid)), c, w2)
              | i0 # is \<Rightarrow>
                  if Tags i0 = [] then (Err (Errorf (''no tags found for instance_id='' @ iid)), c, w2)
                  else if getClusterName (Tags i0) = '''' then
                    (Err (Errorf (''discovering cluster name: instance cluster tags not found for instance_id='' @ iid)), c, w2)
                  else (Ok (getClusterName (Tags i0)), c\<lparr>clusterName := Some (getClusterName (Tags i0))\<rparr>, w2)))"
  using assms by (simp add: GetClusterName_def Let_def split: list.splits)

lemma node_client_simps:
  "clusterName node_client = None" "region node_client = None" "accountID node_client = None"
  "metaClient node_client = Some (EC2Metadata (Session \<lparr>Region = None, CredentialsChainVerboseErrors = None\<rparr>))"
  "ec2Client node_client = Some (EC2 (Session \<lparr>Region = Some ''eu-west-1'', CredentialsChainVerboseErrors = Some True\<rparr>))"
  by (simp_all add: node_client_def)

lemma stub_remote_up:
  "RegionWithContext (stub_remote always_up answer) w m = Inr ''eu-west-1''"
  "GetInstanceIdentityDocumentWithContext (stub_remote always_up answer) w m = Inr \<lparr>AccountID = ''123456789012''\<rparr>"
  "GetMetadataWithContext (stub_remote always_up answer) w m p = Inr ''i-0abc''"
  "DescribeInstancesWithContext (stub_remote always_up answer) w h req = Inr (answer req)"
  by (simp_all add: stub_remote_def always_up_def)

lemma GetClusterName_cases:
  obtains (cached) n where "clusterName c = Some n" "GetClusterName env c w = (Ok n, c, w)"
  | (no_meta) "clusterName c = None" "metaClient c = None" "GetClusterName env c w = (Panic, c, w)"
  | (id_failed) m err where "clusterName c = None" "metaClient c = Some m"
      "GetMetadataWithContext env w m ''instance-id'' = Inl err"
      "GetClusterName env c w =
         (Err (Wrapf ''getting instance id from metadata: '' err), c,
          w @ [GetMetadataWithContext_call m ''instance-id''])"
  | (no_ec2) m iid where "clusterName c = None" "metaClient c = Some m"
      "GetMetadataWithContext env w m ''instance-id'' = Inr iid" "ec2Client c = None"
      "GetClusterName env c w = (Panic, c, w @ [GetMetadataWithContext_call m ''instance-id''])"
  | (describe_failed) m iid h err where "clusterName c = None" "metaClient c = Some m"
      "GetMetadataWithContext env w m ''instance-id'' = Inr iid" "ec2Client c = Some h"
      "DescribeInstancesWithContext env (w @ [GetMetadataWithContext_call m ''instance-id''])
         h \<lparr>Filters = [], InstanceIds = [iid]\<rparr> = Inl err"
      "GetClusterName env c w =
         (Err (Wrapf (''describing instance_id='' @ iid @ '': '') err), c,
          w @ [GetMetadataWithContext_call m ''instance-id'',
               DescribeInstancesWithContext_call h \<lparr>Filters = [], InstanceIds = [iid]\<rparr>])"
  | (described) m iid h resp where "clusterName c = None" "metaClient c = Some m"
      "GetMetadataWithContext env w m ''instance-id'' = Inr iid" "ec2Client c = Some h"
      "DescribeInstancesWithContext env (w @ [GetMetadataWithContext_call m ''instance-id''])
         h \<lparr>Filters = [], InstanceIds = [iid]\<rparr> = Inr resp"
proof (cases "clusterName c")
  case (Some n)
  then show ?thesis using cached by (simp add: GetClusterName_def)
next
  case None
  show ?thesis
  proof (cases "metaClient c")
    case no: None
    with None show ?thesis using no_meta by (simp add: GetClusterName_def)
  next
    case (Some m)
    show ?thesis
    proof (cases "GetMetadataWithContext env w m ''instance-id''")
      case (Inl err)
      with None Some show ?thesis using id_failed by (simp add: GetClusterName_def)
    next
      case (Inr iid)
      show ?thesis
      proof (cases "ec2Client c")
        case no: None
        with None Some Inr show ?thesis using no_ec2 by (simp add: GetClusterName_def)
      next
        case h: (Some h)
        show ?thesis
        proof (cases "DescribeInstancesWithContext env (w @ [GetMetadataWithContext_call m ''instance-id''])
                        h \<lparr>Filters = [], InstanceIds = [iid]\<rparr>")
          case err: (Inl err)
          with None Some Inr h show ?thesis using describe_failed by (simp add: GetClusterName_def)
        next
          case resp: (Inr resp)
          with None Some Inr h show ?thesis using described by simp
        qed
      qed
    qed
  qed
qed

lemma GetClusterName_Ok_cached:
  assumes "GetClusterName env c w = (Ok n, c', w')"
  shows "clusterName c' = Some n \<and> length w' \<le> length w + 2"
proof (cases rule: GetClusterName_cases [where c = c and env = env and w = w])
  case (described m iid h resp)
  note d = GetClusterName_discovery
    [OF described(1) described(2) described(4) described(3) described(5)]
  from assms show ?thesis
    unfolding d by (auto simp: Let_def split: list.splits if_splits)
qed (use assms in auto)

lemma GetClusterName_asks_again:
  assumes "clusterName c = None" and "metaClient c = Some m"
  shows "\<exists>rest. snd (snd (GetClusterName env c w)) = w @ GetMetadataWithContext_call m ''instance-id'' # rest"
proof (cases rule: GetClusterName_cases [where c = c and env = env and w = w])
  case (described m' iid h resp)
  note d = GetClusterName_discovery
    [OF described(1) described(2) described(4) described(3) described(5)]
  from assms described(2) show ?thesis
    unfolding d by (simp add: Let_def split: list.splits)
qed (use assms in auto)

section \<open>Validation of the description in \<open>GetClusterName\<close>\<close>

text \<open>
  C3: when \<open>GetClusterName\<close> discovers the name (no cached name, the instance identifier and
  the description were obtained), a description without reservations fails with the
  "no reservations" error; otherwise a first reservation without instances fails with the
  "no instances" error; otherwise a first instance without tags fails with the "no tags"
  error; otherwise, when no tag matches, it fails with the "cluster tag not found" error.
  The four errors are pairwise different, and the empty string is never returned.
\<close>

theorem GetClusterName_validation_errors:
  assumes "clusterName c = None" and "metaClient c = Some m" and "ec2Client c = Some h"
    and "GetMetadataWithContext env w m ''instance-id'' = Inr iid"
    and "DescribeInstancesWithContext env (w @ [GetMetadataWithContext_call m ''instance-id''])
           h \<lparr>Filters = [], InstanceIds = [iid]\<rparr> = Inr resp"
  shows "(Reservations resp = [] \<longrightarrow>
            fst (GetClusterName env c w) = Err (Errorf (''no reservations found for instance_id='' @ iid)))
       \<and> (Reservations resp \<noteq> [] \<and> Instances (hd (Reservations resp)) = [] \<longrightarrow>
            fst (GetClusterName env c w) = Err (Errorf (''no instances found for instance_id='' @ iid)))
       \<and> (Reservations resp \<noteq> [] \<and> Instances (hd (Reservations resp)) \<noteq> []
            \<and> Tags (hd (Instances (hd (Reservations resp)))) = [] \<longrightarrow>
            fst (GetClusterName env c w) = Err (Errorf (''no tags found for instance_id='' @ iid)))
       \<and> (Reservations resp \<noteq> [] \<and> Instances (hd (Reservations resp)) \<noteq> []
            \<and> Tags (hd (Instances (hd (Reservations resp)))) \<noteq> []
            \<and> (\<forall>u \<in> set (Tags (hd (Instances (hd (Reservations resp))))). spec_tag_name u = None) \<longrightarrow>
            fst (GetClusterName env c w) =
              Err (Errorf (''discovering cluster name: instance cluster tags not found for instance_id='' @ iid)))
       \<and> distinct [Errorf (''no reservations found for instance_id='' @ iid),
                   Errorf (''no instances found for instance_id='' @ iid),
                   Errorf (''no tags found for instance_id='' @ iid),
                   Errorf (''discovering cluster name: instance cluster tags not found for instance_id='' @ iid)]
       \<and> fst (GetClusterName env c w) \<noteq> Ok ''''"
proof -
  note d = GetClusterName_discovery [OF assms]
  have 1: "Reservations resp = [] \<longrightarrow>
            fst (GetClusterName env c w) = Err (Errorf (''no reservations found for instance_id='' @ iid))"
    by (simp add: d)
  have 2: "Reservations resp \<noteq> [] \<and> Instances (hd (Reservations resp)) = [] \<longrightarrow>
            fst (GetClusterName env c w) = Err (Errorf (''no instances found for instance_id='' @ iid))"
    by (cases "Reservations resp") (simp_all add: d)
  have 3: "Reservations resp \<noteq> [] \<and> Instances (hd (Reservations resp)) \<noteq> []
            \<and> Tags (hd (Instances (hd (Reservations resp)))) = [] \<longrightarrow>
            fst (GetClusterName env c w) = Err (Errorf (''no tags found for instance_id='' @ iid))"
    by (cases "Reservations resp"; cases "Instances (hd (Reservations resp))") (simp_all add: d)
  have 4: "Reservations resp \<noteq> [] \<and> Instances (hd (Reservations resp)) \<noteq> []
            \<and> Tags (hd (Instances (hd (Reservations resp)))) \<noteq> []
            \<and> (\<forall>u \<in> set (Tags (hd (Instances (hd (Reservations resp))))). spec_tag_name u = None) \<longrightarrow>
            fst (GetClusterName env c w) =
              Err (Errorf (''discovering cluster name: instance cluster tags not found for instance_id='' @ iid))"
    by (cases "Reservations resp"; cases "Instances (hd (Reservations resp))")
       (simp_all add: d getClusterName_no_match)
  have 5: "distinct [Errorf (''no reservations found for instance_id='' @ iid),
                   Errorf (''no instances found for instance_id='' @ iid),
                   Errorf (''no tags found for instance_id='' @ iid),
                   Errorf (''discovering cluster name: instance cluster tags not found for instance_id='' @ iid)]"
    by simp
  have 6: "fst (GetClusterName env c w) \<noteq> Ok ''''"
    by (simp add: d Let_def split: list.splits)
  from 1 2 3 4 5 6 show ?thesis by blast
qed

theorem GetClusterName_validation_errors_witness:
  "fst (GetClusterName (stub_remote always_up (\<lambda>req. \<lparr>Reservations = []\<rparr>)) node_client [])
     = Err (Errorf ''no reservations found for instance_id=i-0abc'')
   \<and> fst (GetClusterName (stub_remote always_up (\<lambda>req. \<lparr>Reservations = [\<lparr>Instances = []\<rparr>]\<rparr>)) node_client [])
     = Err (Errorf ''no instances found for instance_id=i-0abc'')
   \<and> fst (GetClusterName (stub_remote always_up (tagged [])) node_client [])
     = Err (Errorf ''no tags found for instance_id=i-0abc'')
   \<and> fst (GetClusterName (stub_remote always_up
             (tagged [None, Some \<lparr>Key = Some ''Name'', Value = Some ''node-1''\<rparr>])) node_client [])
     = Err (Errorf ''discovering cluster name: instance cluster tags not found for instance_id=i-0abc'')"
proof -
  note t = GetClusterName_validation_errors
    [OF node_client_simps(1) node_client_simps(4) node_client_simps(5)
        stub_remote_up(3) stub_remote_up(4)]
  show ?thesis
    using t [of "\<lambda>req. \<lparr>Reservations = []\<rparr>" "[]"]
      t [of "\<lambda>req. \<lparr>Reservations = [\<lparr>Instances = []\<rparr>]\<rparr>" "[]"]
      t [of "tagged []" "[]"]
      t [of "tagged [None, Some \<lparr>Key = Some ''Name'', Value = Some ''node-1''\<rparr>]" "[]"]
    by (simp add: tagged_def spec_tag_name_def HasPrefix_def)
qed

text \<open>
  C9: a tag whose key is exactly one of the two ownership prefixes, with the value
  \<open>owned\<close>, is the first match and yields the empty name; \<open>GetClusterName\<close> takes the
  empty name for "nothing found" and fails with the "cluster tag not found" error, also
  when a later tag would have given a name.
\<close>

theorem GetClusterName_empty_suffix:
  assumes "clusterName c = None" and "metaClient c = Some m" and "ec2Client c = Some h"
    and "GetMetadataWithContext env w m ''instance-id'' = Inr iid"
    and "DescribeInstancesWithContext env (w @ [GetMetadataWithContext_call m ''instance-id''])
           h \<lparr>Filters = [], InstanceIds = [iid]\<rparr> = Inr resp"
    and "Reservations resp \<noteq> []" and "Instances (hd (Reservations resp)) \<noteq> []"
    and "Tags (hd (Instances (hd (Reservations resp))))
           = pre @ Some \<lparr>Key = Some k, Value = Some ''owned''\<rparr> # post"
    and "k = ''k8s.io/cluster/'' \<or> k = ''kubernetes.io/cluster/''"
    and "\<forall>u \<in> set pre. spec_tag_name u = None"
  shows "getClusterName (Tags (hd (Instances (hd (Reservations resp))))) = ''''
       \<and> GetClusterName env c w =
           (Err (Errorf (''discovering cluster name: instance cluster tags not found for instance_id='' @ iid)),
            c, w @ [GetMetadataWithContext_call m ''instance-id'',
                    DescribeInstancesWithContext_call h \<lparr>Filters = [], InstanceIds = [iid]\<rparr>])"
proof -
  have k1: "spec_tag_name (Some \<lparr>Key = Some ''k8s.io/cluster/'', Value = Some ''owned''\<rparr>) = Some ''''"
    by (simp add: spec_tag_name_def HasPrefix_def)
  have k2: "spec_tag_name (Some \<lparr>Key = Some ''kubernetes.io/cluster/'', Value = Some ''owned''\<rparr>) = Some ''''"
    by (simp add: spec_tag_name_def HasPrefix_def)
  from assms(9) k1 k2
  have "spec_tag_name (Some \<lparr>Key = Some k, Value = Some ''owned''\<rparr>) = Some ''''"
    by blast
  from getClusterName_append_hit [OF assms(10) this] assms(8)
  have e: "getClusterName (Tags (hd (Instances (hd (Reservations resp))))) = ''''" by simp
  have ne: "Tags (hd (Instances (hd (Reservations resp)))) \<noteq> []" using assms(8) by simp
  from assms(6) obtain r0 rs where r: "Reservations resp = r0 # rs"
    by (cases "Reservations resp") auto
  from assms(7) r obtain i0 is0 where i: "Instances r0 = i0 # is0"
    by (cases "Instances r0") auto
  from e ne r i have "getClusterName (Tags i0) = ''''" and "Tags i0 \<noteq> []" by simp_all
  with r i have "GetClusterName env c w =
           (Err (Errorf (''discovering cluster name: instance cluster tags not found for instance_id='' @ iid)),
            c, w @ [GetMetadataWithContext_call m ''instance-id'',
                    DescribeInstancesWithContext_call h \<lparr>Filters = [], InstanceIds = [iid]\<rparr>])"
    by (simp add: GetClusterName_discovery [OF assms(1-5)])
  with e show ?thesis by blast
qed

theorem GetClusterName_empty_suffix_witness:
  "GetClusterName
     (stub_remote always_up
        (tagged [Some \<lparr>Key = Some ''Name'', Value = Some ''node-1''\<rparr>,
                 Some \<lparr>Key = Some ''kubernetes.io/cluster/'', Value = Some ''owned''\<rparr>,
                 Some \<lparr>Key = Some ''KubernetesCluster'', Value = Some ''prod''\<rparr>]))
     node_client []
   = (Err (Errorf ''discovering cluster name: instance cluster tags not found for instance_id=i-0abc''),
      node_client,
      [GetMetadataWithContext_call
         (EC2Metadata (Session \<lparr>Region = None, CredentialsChainVerboseErrors = None\<rparr>)) ''instance-id'',
       DescribeInstancesWithContext_call
         (EC2 (Session \<lparr>Region = Some ''eu-west-1'', CredentialsChainVerboseErrors = Some True\<rparr>))
         \<lparr>Filters = [], InstanceIds = [''i-0abc'']\<rparr>])"
  using GetClusterName_empty_suffix
    [where c = node_client and w = "[]" and iid = "''i-0abc''"
       and env = "stub_remote always_up
        (tagged [Some \<lparr>Key = Some ''Name'', Value = Some ''node-1''\<rparr>,
                 Some \<lparr>Key = Some ''kubernetes.io/cluster/'', Value = Some ''owned''\<rparr>,
                 Some \<lparr>Key = Some ''KubernetesCluster'', Value = Some ''prod''\<rparr>])"
       and m = "EC2Metadata (Session \<lparr>Region = None, CredentialsChainVerboseErrors = None\<rparr>)"
       and h = "EC2 (Session \<lparr>Region = Some ''eu-west-1'', CredentialsChainVerboseErrors = Some True\<rparr>)"
       and resp = "tagged [Some \<lparr>Key = Some ''Name'', Value = Some ''node-1''\<rparr>,
                 Some \<lparr>Key = Some ''kubernetes.io/cluster/'', Value = Some ''owned''\<rparr>,
                 Some \<lparr>Key = Some ''KubernetesCluster'', Value = Some ''prod''\<rparr>]
                 \<lparr>Filters = [], InstanceIds = [''i-0abc'']\<rparr>"
       and pre = "[Some \<lparr>Key = Some ''Name'', Value = Some ''node-1''\<rparr>]"
       and k = "''kubernetes.io/cluster/''"
       and post = "[Some \<lparr>Key = Some ''KubernetesCluster'', Value = Some ''prod''\<rparr>]"]
  by (simp add: node_client_simps stub_remote_up tagged_def spec_tag_name_def HasPrefix_def)

section \<open>The scalar getters and their cache\<close>

text \<open>
  C5: a getter whose field is set returns the field and makes no call: the client and the
  trace are unchanged. So after a getter has returned a value (having made at most one
  lookup: one call, or two for the cluster name), the next call of the same getter returns
  the same value from the field and adds no call, whatever the collaborators would answer.
\<close>

theorem getters_cached:
  "(region c = Some r \<longrightarrow> GetRegion env c w = (Ok r, c, w))
   \<and> (accountID c = Some a \<longrightarrow> GetAccountID env c w = (Ok a, c, w))
   \<and> (clusterName c = Some n \<longrightarrow> GetClusterName env c w = (Ok n, c, w))
   \<and> (GetRegion env c w = (Ok r, c', w') \<longrightarrow>
        length w' \<le> length w + 1 \<and> GetRegion env2 c' w2 = (Ok r, c', w2))
   \<and> (GetAccountID env c w = (Ok a, c', w') \<longrightarrow>
        length w' \<le> length w + 1 \<and> GetAccountID env2 c' w2 = (Ok a, c', w2))
   \<and> (GetClusterName env c w = (Ok n, c', w') \<longrightarrow>
        length w' \<le> length w + 2 \<and> GetClusterName env2 c' w2 = (Ok n, c', w2))"
proof -
  have 1: "region c = Some r \<longrightarrow> GetRegion env c w = (Ok r, c, w)"
    by (simp add: GetRegion_def)
  have 2: "accountID c = Some a \<longrightarrow> GetAccountID env c w = (Ok a, c, w)"
    by (simp add: GetAccountID_def)
  have 3: "clusterName c = Some n \<longrightarrow> GetClusterName env c w = (Ok n, c, w)"
    by (simp add: GetClusterName_def)
  have 4: "GetRegion env c w = (Ok r, c', w') \<longrightarrow>
        length w' \<le> length w + 1 \<and> GetRegion env2 c' w2 = (Ok r, c', w2)"
    by (auto simp: GetRegion_def split: option.splits sum.splits)
  have 5: "GetAccountID env c w = (Ok a, c', w') \<longrightarrow>
        length w' \<le> length w + 1 \<and> GetAccountID env2 c' w2 = (Ok a, c', w2)"
    by (auto simp: GetAccountID_def split: option.splits sum.splits)
  have 6: "GetClusterName env c w = (Ok n, c', w') \<longrightarrow>
        length w' \<le> length w + 2 \<and> GetClusterName env2 c' w2 = (Ok n, c', w2)"
  proof
    assume a: "GetClusterName env c w = (Ok n, c', w')"
    from GetClusterName_Ok_cached [OF a] have "GetClusterName env2 c' w2 = (Ok n, c', w2)"
      by (simp add: GetClusterName_def)
    with GetClusterName_Ok_cached [OF a]
    show "length w' \<le> length w + 2 \<and> GetClusterName env2 c' w2 = (Ok n, c', w2)" by simp
  qed
  from 1 2 3 4 5 6 show ?thesis by blast
qed

theorem getters_cached_witness:
  "GetRegion (stub_remote always_up (tagged [])) node_client []
     = (Ok ''eu-west-1'', node_client\<lparr>region := Some ''eu-west-1''\<rparr>,
        [RegionWithContext_call (EC2Metadata (Session \<lparr>Region = None, CredentialsChainVerboseErrors = None\<rparr>))])
   \<and> GetRegion (stub_remote always_up (tagged [])) (node_client\<lparr>region := Some ''eu-west-1''\<rparr>)
        [RegionWithContext_call (EC2Metadata (Session \<lparr>Region = None, CredentialsChainVerboseErrors = None\<rparr>))]
     = (Ok ''eu-west-1'', node_client\<lparr>region := Some ''eu-west-1''\<rparr>,
        [RegionWithContext_call (EC2Metadata (Session \<lparr>Region = None, CredentialsChainVerboseErrors = None\<rparr>))])
   \<and> GetAccountID (stub_remote always_down (tagged [])) (node_client\<lparr>accountID := Some ''123456789012''\<rparr>) []
     = (Ok ''123456789012'', node_client\<lparr>accountID := Some ''123456789012''\<rparr>, [])
   \<and> GetClusterName (stub_remote always_down (tagged [])) (node_client\<lparr>clusterName := Some ''prod''\<rparr>) []
     = (Ok ''prod'', node_client\<lparr>clusterName := Some ''prod''\<rparr>, [])"
proof -
  let ?env = "stub_remote always_up (tagged [])"
  let ?m = "EC2Metadata (Session \<lparr>Region = None, CredentialsChainVerboseErrors = None\<rparr>)"
  have r1: "GetRegion ?env node_client []
     = (Ok ''eu-west-1'', node_client\<lparr>region := Some ''eu-west-1''\<rparr>, [RegionWithContext_call ?m])"
    by (simp add: GetRegion_def node_client_simps stub_remote_up)
  note again = getters_cached [THEN conjunct2, THEN conjunct2, THEN conjunct2, THEN conjunct1,
      rule_format, OF r1, THEN conjunct2]
  have a: "GetAccountID (stub_remote always_down (tagged [])) (node_client\<lparr>accountID := Some ''123456789012''\<rparr>) []
     = (Ok ''123456789012'', node_client\<lparr>accountID := Some ''123456789012''\<rparr>, [])"
    by (rule getters_cached [THEN conjunct2, THEN conjunct1, rule_format]) simp
  have n: "GetClusterName (stub_remote always_down (tagged [])) (node_client\<lparr>clusterName := Some ''prod''\<rparr>) []
     = (Ok ''prod'', node_client\<lparr>clusterName := Some ''prod''\<rparr>, [])"
    by (rule getters_cached [THEN conjunct2, THEN conjunct2, THEN conjunct1, rule_format]) simp
  from r1 again a n show ?thesis by simp
qed

text \<open>
  C10: when the field is unset and the remote call fails, the getter returns the error (for
  the cluster name wrapped with what was being looked up) and leaves the client as it
  was, so the field stays unset; the next call of the same getter makes the remote call
  again, and returns and stores the fresh answer when that call succeeds.
\<close>

theorem getters_error_leaves_unset:
  "(region c = None \<and> metaClient c = Some m \<and> RegionWithContext env w m = Inl e \<longrightarrow>
       GetRegion env c w = (Err e, c, w @ [RegionWithContext_call m])
     \<and> snd (snd (GetRegion env c (w @ [RegionWithContext_call m])))
         = w @ [RegionWithContext_call m, RegionWithContext_call m]
     \<and> (\<forall>r. RegionWithContext env (w @ [RegionWithContext_call m]) m = Inr r \<longrightarrow>
           GetRegion env c (w @ [RegionWithContext_call m])
             = (Ok r, c\<lparr>region := Some r\<rparr>, w @ [RegionWithContext_call m, RegionWithContext_call m])))
   \<and> (accountID c = None \<and> metaClient c = Some m
        \<and> GetInstanceIdentityDocumentWithContext env w m = Inl e \<longrightarrow>
       GetAccountID env c w = (Err e, c, w @ [GetInstanceIdentityDocumentWithContext_call m])
     \<and> snd (snd (GetAccountID env c (w @ [GetInstanceIdentityDocumentWithContext_call m])))
         = w @ [GetInstanceIdentityDocumentWithContext_call m, GetInstanceIdentityDocumentWithContext_call m]
     \<and> (\<forall>d. GetInstanceIdentityDocumentWithContext env
                (w @ [GetInstanceIdentityDocumentWithContext_call m]) m = Inr d \<longrightarrow>
           GetAccountID env c (w @ [GetInstanceIdentityDocumentWithContext_call m])
             = (Ok (AccountID d), c\<lparr>accountID := Some (AccountID d)\<rparr>,
                w @ [GetInstanceIdentityDocumentWithContext_call m,
                     GetInstanceIdentityDocumentWithContext_call m])))
   \<and> (clusterName c = None \<and> metaClient c = Some m
        \<and> GetMetadataWithContext env w m ''instance-id'' = Inl e \<longrightarrow>
       GetClusterName env c w
         = (Err (Wrapf ''getting instance id from metadata: '' e), c,
            w @ [GetMetadataWithContext_call m ''instance-id''])
     \<and> (\<exists>rest. snd (snd (GetClusterName env c (w @ [GetMetadataWithContext_call m ''instance-id''])))
           = w @ [GetMetadataWithContext_call m ''instance-id'']
               @ GetMetadataWithContext_call m ''instance-id'' # rest))
   \<and> (clusterName c = None \<and> metaClient c = Some m \<and> ec2Client c = Some h
        \<and> GetMetadataWithContext env w m ''instance-id'' = Inr iid
        \<and> DescribeInstancesWithContext env (w @ [GetMetadataWithContext_call m ''instance-id''])
             h \<lparr>Filters = [], InstanceIds = [iid]\<rparr> = Inl e \<longrightarrow>
       GetClusterName env c w
         = (Err (Wrapf (''describing instance_id='' @ iid @ '': '') e), c,
            w @ [GetMetadataWithContext_call m ''instance-id'',
                 DescribeInstancesWithContext_call h \<lparr>Filters = [], InstanceIds = [iid]\<rparr>])
     \<and> (\<exists>rest. snd (snd (GetClusterName env c
                  (w @ [GetMetadataWithContext_call m ''instance-id'',
                        DescribeInstancesWithContext_call h \<lparr>Filters = [], InstanceIds = [iid]\<rparr>])))
           = w @ [GetMetadataWithContext_call m ''instance-id'',
                  DescribeInstancesWithContext_call h \<lparr>Filters = [], InstanceIds = [iid]\<rparr>]
               @ GetMetadataWithContext_call m ''instance-id'' # rest))"
proof -
  have 1: "region c = None \<and> metaClient c = Some m \<and> RegionWithContext env w m = Inl e \<longrightarrow>
       GetRegion env c w = (Err e, c, w @ [RegionWithContext_call m])
     \<and> snd (snd (GetRegion env c (w @ [RegionWithContext_call m])))
         = w @ [RegionWithContext_call m, RegionWithContext_call m]
     \<and> (\<forall>r. RegionWithContext env (w @ [RegionWithContext_call m]) m = Inr r \<longrightarrow>
           GetRegion env c (w @ [RegionWithContext_call m])
             = (Ok r, c\<lparr>region := Some r\<rparr>, w @ [RegionWithContext_call m, RegionWithContext_call m]))"
    by (simp add: GetRegion_def split: sum.splits)
  have 2: "accountID c = None \<and> metaClient c = Some m
        \<and> GetInstanceIdentityDocumentWithContext env w m = Inl e \<longrightarrow>
       GetAccountID env c w = (Err e, c, w @ [GetInstanceIdentityDocumentWithContext_call m])
     \<and> snd (snd (GetAccountID env c (w @ [GetInstanceIdentityDocumentWithContext_call m])))
         = w @ [GetInstanceIdentityDocumentWithContext_call m, GetInstanceIdentityDocumentWithContext_call m]
     \<and> (\<forall>d. GetInstanceIdentityDocumentWithContext env
                (w @ [GetInstanceIdentityDocumentWithContext_call m]) m = Inr d \<longrightarrow>
           GetAccountID env c (w @ [GetInstanceIdentityDocumentWithContext_call m])
             = (Ok (AccountID d), c\<lparr>accountID := Some (AccountID d)\<rparr>,
                w @ [GetInstanceIdentityDocumentWithContext_call m,
                     GetInstanceIdentityDocumentWithContext_call m]))"
    by (simp add: GetAccountID_def split: sum.splits)
  have 3: "clusterName c = None \<and> metaClient c = Some m
        \<and> GetMetadataWithContext env w m ''instance-id'' = Inl e \<longrightarrow>
       GetClusterName env c w
         = (Err (Wrapf ''getting instance id from metadata: '' e), c,
            w @ [GetMetadataWithContext_call m ''instance-id''])
     \<and> (\<exists>rest. snd (snd (GetClusterName env c (w @ [GetMetadataWithContext_call m ''instance-id''])))
           = w @ [GetMetadataWithContext_call m ''instance-id'']
               @ GetMetadataWithContext_call m ''instance-id'' # rest)"
  proof (intro impI conjI)
    assume a: "clusterName c = None \<and> metaClient c = Some m
        \<and> GetMetadataWithContext env w m ''instance-id'' = Inl e"
    then show "GetClusterName env c w
         = (Err (Wrapf ''getting instance id from metadata: '' e), c,
            w @ [GetMetadataWithContext_call m ''instance-id''])"
      by (simp add: GetClusterName_def)
    from a GetClusterName_asks_again [of c m env "w @ [GetMetadataWithContext_call m ''instance-id'']"]
    show "\<exists>rest. snd (snd (GetClusterName env c (w @ [GetMetadataWithContext_call m ''instance-id''])))
           = w @ [GetMetadataWithContext_call m ''instance-id'']
               @ GetMetadataWithContext_call m ''instance-id'' # rest"
      by simp
  qed
  have 4: "clusterName c = None \<and> metaClient c = Some m \<and> ec2Client c = Some h
        \<and> GetMetadataWithContext env w m ''instance-id'' = Inr iid
        \<and> DescribeInstancesWithContext env (w @ [GetMetadataWithContext_call m ''instance-id''])
             h \<lparr>Filters = [], InstanceIds = [iid]\<rparr> = Inl e \<longrightarrow>
       GetClusterName env c w
         = (Err (Wrapf (''describing instance_id='' @ iid @ '': '') e), c,
            w @ [GetMetadataWithContext_call m ''instance-id'',
                 DescribeInstancesWithContext_call h \<lparr>Filters = [], InstanceIds = [iid]\<rparr>])
     \<and> (\<exists>rest. snd (snd (GetClusterName env c
                  (w @ [GetMetadataWithContext_call m ''instance-id'',
                        DescribeInstancesWithContext_call h \<lparr>Filters = [], InstanceIds = [iid]\<rparr>])))
           = w @ [GetMetadataWithContext_call m ''instance-id'',
                  DescribeInstancesWithContext_call h \<lparr>Filters = [], InstanceIds = [iid]\<rparr>]
               @ GetMetadataWithContext_call m ''instance-id'' # rest)"
  proof (intro impI conjI)
    assume a: "clusterName c = None \<and> metaClient c = Some m \<and> ec2Client c = Some h
        \<and> GetMetadataWithContext env w m ''instance-id'' = Inr iid
        \<and> DescribeInstancesWithContext env (w @ [GetMetadataWithContext_call m ''instance-id''])
             h \<lparr>Filters = [], InstanceIds = [iid]\<rparr> = Inl e"
    then show "GetClusterName env c w
         = (Err (Wrapf (''describing instance_id='' @ iid @ '': '') e), c,
            w @ [GetMetadataWithContext_call m ''instance-id'',
                 DescribeInstancesWithContext_call h \<lparr>Filters = [], InstanceIds = [iid]\<rparr>])"
      by (simp add: GetClusterName_def)
    from a GetClusterName_asks_again [of c m env
        "w @ [GetMetadataWithContext_call m ''instance-id'',
              DescribeInstancesWithContext_call h \<lparr>Filters = [], InstanceIds = [iid]\<rparr>]"]
    show "\<exists>rest. snd (snd (GetClusterName env c
                  (w @ [GetMetadataWithContext_call m ''instance-id'',
                        DescribeInstancesWithContext_call h \<lparr>Filters = [], InstanceIds = [iid]\<rparr>])))
           = w @ [GetMetadataWithContext_call m ''instance-id'',
                  DescribeInstancesWithContext_call h \<lparr>Filters = [], InstanceIds = [iid]\<rparr>]
               @ GetMetadataWithContext_call m ''instance-id'' # rest"
      by simp
  qed
  from 1 2 3 4 show ?thesis by blast
qed

theorem getters_error_leaves_unset_witness:
  "GetRegion (stub_remote (down_at 0) (tagged [])) node_client []
     = (Err (SdkError ''unavailable''), node_client,
        [RegionWithContext_call (EC2Metadata (Session \<lparr>Region = None, CredentialsChainVerboseErrors = None\<rparr>))])
   \<and> GetRegion (stub_remote (down_at 0) (tagged [])) node_client
        [RegionWithContext_call (EC2Metadata (Session \<lparr>Region = None, CredentialsChainVerboseErrors = None\<rparr>))]
     = (Ok ''eu-west-1'', node_client\<lparr>region := Some ''eu-west-1''\<rparr>,
        [RegionWithContext_call (EC2Metadata (Session \<lparr>Region = None, CredentialsChainVerboseErrors = None\<rparr>)),
         RegionWithContext_call (EC2Metadata (Session \<lparr>Region = None, CredentialsChainVerboseErrors = None\<rparr>))])
   \<and> GetAccountID (stub_remote (down_at 0) (tagged [])) node_client []
     = (Err (SdkError ''unavailable''), node_client,
        [GetInstanceIdentityDocumentWithContext_call
           (EC2Metadata (Session \<lparr>Region = None, CredentialsChainVerboseErrors = None\<rparr>))])
   \<and> GetClusterName (stub_remote (down_at 0) (tagged [])) node_client []
     = (Err (Wrapf ''getting instance id from metadata: '' (SdkError ''unavailable'')), node_client,
        [GetMetadataWithContext_call
           (EC2Metadata (Session \<lparr>Region = None, CredentialsChainVerboseErrors = None\<rparr>)) ''instance-id''])
   \<and> GetClusterName (stub_remote (down_at 1) (tagged [])) node_client []
     = (Err (Wrapf ''describing instance_id=i-0abc: '' (SdkError ''unavailable'')), node_client,
        [GetMetadataWithContext_call
           (EC2Metadata (Session \<lparr>Region = None, CredentialsChainVerboseErrors = None\<rparr>)) ''instance-id'',
         DescribeInstancesWithContext_call
           (EC2 (Session \<lparr>Region = Some ''eu-west-1'', CredentialsChainVerboseErrors = Some True\<rparr>))
           \<lparr>Filters = [], InstanceIds = [''i-0abc'']\<rparr>])"
  using getters_error_leaves_unset
    [where c = node_client and w = "[]" and e = "SdkError ''unavailable''" and iid = "''i-0abc''"
       and env = "stub_remote (down_at 0) (tagged [])"
       and m = "EC2Metadata (Session \<lparr>Region = None, CredentialsChainVerboseErrors = None\<rparr>)"
       and h = "EC2 (Session \<lparr>Region = Some ''eu-west-1'', CredentialsChainVerboseErrors = Some True\<rparr>)"]
    getters_error_leaves_unset
    [where c = node_client and w = "[]" and e = "SdkError ''unavailable''" and iid = "''i-0abc''"
       and env = "stub_remote (down_at 1) (tagged [])"
       and m = "EC2Metadata (Session \<lparr>Region = None, CredentialsChainVerboseErrors = None\<rparr>)"
       and h = "EC2 (Session \<lparr>Region = Some ''eu-west-1'', CredentialsChainVerboseErrors = Some True\<rparr>)"]
  by (simp add: node_client_simps stub_remote_def down_at_def)

section \<open>Construction\<close>

lemma apply_opts_append:
  "apply_opts (pre @ post) c w =
     (case apply_opts pre c w of
        (Ok u, c', w') \<Rightarrow> apply_opts post c' w'
      | (Err e, c', w') \<Rightarrow> (Err e, c', w')
      | (Panic, c', w') \<Rightarrow> (Panic, c', w'))"
  by (induction pre arbitrary: c w) (auto split: prod.splits outcome.splits)

text \<open>
  C6: \<open>New\<close> starts from the zero client (only the logger set) and applies the steps in
  order; with no step it returns that client. When the steps before \<open>opt\<close> succeed and
  \<open>opt\<close> returns an error, \<open>New\<close> returns that error and no client, and the trace is the
  one \<open>opt\<close> left: the steps after it have no effect, whatever they are.
\<close>

theorem New_fail_fast:
  "New lg [] w = (Ok (zero_client lg), w)
   \<and> (apply_opts pre (zero_client lg) w = (Ok (), c1, w1) \<and> opt c1 w1 = (Ok (), c2, w2) \<longrightarrow>
        New lg (pre @ [opt]) w = (Ok c2, w2))
   \<and> (apply_opts pre (zero_client lg) w = (Ok (), c1, w1) \<and> opt c1 w1 = (Err e, c2, w2) \<longrightarrow>
        New lg (pre @ opt # post) w = (Err e, w2))"
  by (simp add: New_def apply_opts_append)

theorem New_fail_fast_witness:
  "New None [WithMetadata ''123456789012'' ''eu-west-1'' ''prod'',
             WithMetadataDiscovery (stub_remote always_down echo),
             WithEC2Client (stub_remote always_up echo)] []
     = (Err (Wrapf ''creating metadata session: '' (SdkError ''unavailable'')), [NewSession_call []])"
  using New_fail_fast [where lg = None and w = "[]"
        and pre = "[WithMetadata ''123456789012'' ''eu-west-1'' ''prod'']"
        and opt = "WithMetadataDiscovery (stub_remote always_down echo)"
        and post = "[WithEC2Client (stub_remote always_up echo)]"
        and ?c1.0 = "(zero_client None)\<lparr>accountID := Some ''123456789012'', region := Some ''eu-west-1'',
                clusterName := Some ''prod''\<rparr>"
        and ?w1.0 = "[]"
        and ?c2.0 = "(zero_client None)\<lparr>accountID := Some ''123456789012'', region := Some ''eu-west-1'',
                clusterName := Some ''prod''\<rparr>"
        and ?w2.0 = "[NewSession_call []]"
        and e = "Wrapf ''creating metadata session: '' (SdkError ''unavailable'')"]
  by (simp add: WithMetadata_def WithMetadataDiscovery_def stub_remote_def always_down_def)

text \<open>
  C4, as stated, fails: on the zero client, whose region is unset, \<open>WithEC2Client\<close> does
  not return an error; the dereference of the nil region crashes.
\<close>

theorem WithEC2Client_region_unset_counterexample:
  "WithEC2Client (stub_remote always_up echo) (zero_client None) [] = (Panic, zero_client None, [])"
  by (simp add: WithEC2Client_def zero_client_def)

text \<open>
  C4, amended: applied to a client whose region is unset, \<open>WithEC2Client\<close> crashes on the
  nil region before any session is opened, leaving the client and the trace unchanged; it
  returns an error exactly when the region is set and the creation of the session fails.
\<close>

theorem WithEC2Client_region_unset:
  "(region c = None \<longrightarrow> WithEC2Client env c w = (Panic, c, w))
   \<and> ((\<exists>e. fst (WithEC2Client env c w) = Err e) \<longleftrightarrow>
        (\<exists>r e. region c = Some r
           \<and> NewSession env w [\<lparr>Region = Some r, CredentialsChainVerboseErrors = Some True\<rparr>] = Inl e))"
  by (auto simp: WithEC2Client_def Let_def split: option.splits sum.splits)

theorem WithEC2Client_region_unset_witness:
  "WithEC2Client (stub_remote always_down echo) (zero_client None) [] = (Panic, zero_client None, [])
   \<and> fst (WithEC2Client (stub_remote always_down echo) ((zero_client None)\<lparr>region := Some ''eu-west-1''\<rparr>) [])
       = Err (Wrapf ''creating aws sdk session: '' (SdkError ''unavailable''))"
  using WithEC2Client_region_unset [of "zero_client None" "stub_remote always_down echo" "[]"]
    WithEC2Client_region_unset [of "(zero_client None)\<lparr>region := Some ''eu-west-1''\<rparr>"
       "stub_remote always_down echo" "[]"]
  by (simp add: zero_client_def WithEC2Client_def stub_remote_def always_down_def)

section \<open>Batch lookup\<close>

text \<open>
  C8: for the empty list of identifiers no call is made (the trace is unchanged) and the
  result is the empty list with no error, whatever the client and the collaborators are.
\<close>

theorem GetInstancesByInstanceIDs_empty:
  "GetInstancesByInstanceIDs env c [] w = (Ok [], w)"
  by (simp add: GetInstancesByInstanceIDs_def)

declare spec_chunks.simps [simp del]
declare batch_loop.simps [simp del]

lemma spec_chunks_Nil [simp]: "spec_chunks n [] = []"
  by (simp add: spec_chunks.simps)

lemma spec_chunks_step:
  "0 < n \<Longrightarrow> xs \<noteq> [] \<Longrightarrow> spec_chunks n xs = take n xs # spec_chunks n (drop n xs)"
  by (subst spec_chunks.simps) simp

lemma concat_spec_chunks: "0 < n \<Longrightarrow> concat (spec_chunks n xs) = xs"
proof (induction n xs rule: spec_chunks.induct)
  case (1 n xs)
  then show ?case by (cases "xs = []") (simp_all add: spec_chunks_step)
qed

lemma spec_chunks_sizes:
  "0 < n \<Longrightarrow> b \<in> set (spec_chunks n xs) \<Longrightarrow> 0 < length b \<and> length b \<le> n"
proof (induction n xs rule: spec_chunks.induct)
  case (1 n xs)
  then show ?case by (cases "xs = []") (auto simp: spec_chunks_step)
qed

lemma spec_chunks_full:
  "0 < n \<Longrightarrow> Suc k < length (spec_chunks n xs) \<Longrightarrow> length (spec_chunks n xs ! k) = n"
proof (induction n xs arbitrary: k rule: spec_chunks.induct)
  case (1 n xs)
  show ?case
  proof (cases "xs = []")
    case True
    with "1.prems" show ?thesis by simp
  next
    case False
    note step = spec_chunks_step [OF "1.prems"(1) False]
    show ?thesis
    proof (cases k)
      case 0
      have "drop n xs \<noteq> []"
        using "1.prems"(2) step 0 by (cases "drop n xs = []") simp_all
      then have "n < length xs" by simp
      with 0 step show ?thesis by simp
    next
      case (Suc j)
      with "1.prems" step have "Suc j < length (spec_chunks n (drop n xs))" by simp
      with "1.IH" [of j] "1.prems"(1) False
      have "length (spec_chunks n (drop n xs) ! j) = n" by simp
      with Suc step show ?thesis by simp
    qed
  qed
qed

lemma spec_chunks_45:
  assumes "length xs = 45"
  shows "map length (spec_chunks 20 xs) = [20, 20, 5]"
proof -
  have a: "xs \<noteq> []" "drop 20 xs \<noteq> []" "drop 20 (drop 20 xs) \<noteq> []"
    "drop 20 (drop 20 (drop 20 xs)) = []"
    using assms by auto
  show ?thesis
    using assms a by (simp add: spec_chunks_step)
qed

lemma batch_loop_describe_batches:
  "batch_loop env (Some h) idsPtr i instances w =
     describe_batches env h (spec_chunks batchSize (drop i idsPtr)) instances w"
proof (induction env "Some h" idsPtr i instances w rule: batch_loop.induct)
  case (1 env idsPtr i instances w)
  show ?case
  proof (cases "i < length idsPtr")
    case False
    then show ?thesis by (simp add: batch_loop.simps)
  next
    case True
    then have ne: "drop i idsPtr \<noteq> []" by simp
    have t: "take (min (i + batchSize) (length idsPtr) - i) (drop i idsPtr)
               = take batchSize (drop i idsPtr)"
      using True by (simp add: min_def)
    have c: "spec_chunks batchSize (drop i idsPtr) =
               take batchSize (drop i idsPtr) # spec_chunks batchSize (drop (i + batchSize) idsPtr)"
      using spec_chunks_step [of batchSize "drop i idsPtr"] ne
      by (simp add: batchSize_def add.commute)
    show ?thesis
    proof (cases "DescribeInstancesWithContext env w h
                    (batch_request (take batchSize (drop i idsPtr)))")
      case (Inl err)
      with True t c show ?thesis
        by (subst batch_loop.simps) (simp add: Let_def)
    next
      case (Inr resp)
      have "batch_loop env (Some h) idsPtr (i + batchSize)
              (instances @ concat (map Instances (Reservations resp)))
              (w @ [DescribeInstancesWithContext_call h
                      (batch_request (take batchSize (drop i idsPtr)))]) =
            describe_batches env h (spec_chunks batchSize (drop (i + batchSize) idsPtr))
              (instances @ concat (map Instances (Reservations resp)))
              (w @ [DescribeInstancesWithContext_call h
                      (batch_request (take batchSize (drop i idsPtr)))])"
        using "1.hyps" True t Inr by simp
      with True t c Inr show ?thesis
        by (subst batch_loop.simps) (simp add: Let_def)
    qed
  qed
qed

lemma describe_batches_all_ok:
  assumes "length resps = length bs"
    and "\<forall>k<length bs.
           DescribeInstancesWithContext env
             (w @ map (DescribeInstancesWithContext_call h) (map batch_request (take k bs))) h
             (batch_request (bs ! k)) = Inr (resps ! k)"
  shows "describe_batches env h bs acc w =
           (Ok (acc @ concat (map instances_of resps)),
            w @ map (DescribeInstancesWithContext_call h) (map batch_request bs))"
  using assms
proof (induction bs arbitrary: resps acc w)
  case Nil
  then show ?case by simp
next
  case (Cons b bs)
  from Cons.prems(1) obtain r rs where resps: "resps = r # rs" and len: "length rs = length bs"
    by (cases resps) auto
  from Cons.prems(2) [rule_format, of 0] resps
  have first: "DescribeInstancesWithContext env w h (batch_request b) = Inr r" by simp
  have rest: "\<forall>k<length bs.
           DescribeInstancesWithContext env
             ((w @ [DescribeInstancesWithContext_call h (batch_request b)])
                @ map (DescribeInstancesWithContext_call h) (map batch_request (take k bs))) h
             (batch_request (bs ! k)) = Inr (rs ! k)"
  proof (intro allI impI)
    fix k assume "k < length bs"
    with Cons.prems(2) [rule_format, of "Suc k"] resps show
      "DescribeInstancesWithContext env
         ((w @ [DescribeInstancesWithContext_call h (batch_request b)])
            @ map (DescribeInstancesWithContext_call h) (map batch_request (take k bs))) h
         (batch_request (bs ! k)) = Inr (rs ! k)"
      by simp
  qed
  from Cons.IH [OF len rest] first resps show ?case
    by (simp add: instances_of_def)
qed

lemma describe_batches_first_failure:
  assumes "k < length bs"
    and "\<forall>j<k. \<exists>resp.
           DescribeInstancesWithContext env
             (w @ map (DescribeInstancesWithContext_call h) (map batch_request (take j bs))) h
             (batch_request (bs ! j)) = Inr resp"
    and "DescribeInstancesWithContext env
           (w @ map (DescribeInstancesWithContext_call h) (map batch_request (take k bs))) h
           (batch_request (bs ! k)) = Inl e"
  shows "describe_batches env h bs acc w =
           (Err (Wrapf ''describing instances: '' e),
            w @ map (DescribeInstancesWithContext_call h) (map batch_request (take (Suc k) bs)))"
  using assms
proof (induction bs arbitrary: k acc w)
  case Nil
  then show ?case by simp
next
  case (Cons b bs)
  show ?case
  proof (cases k)
    case 0
    with Cons.prems(3) show ?thesis by simp
  next
    case (Suc i)
    from Cons.prems(2) [rule_format, of 0] Suc obtain r
      where first: "DescribeInstancesWithContext env w h (batch_request b) = Inr r" by auto
    have i: "i < length bs" using Cons.prems(1) Suc by simp
    have before: "\<forall>j<i. \<exists>resp.
           DescribeInstancesWithContext env
             ((w @ [DescribeInstancesWithContext_call h (batch_request b)])
                @ map (DescribeInstancesWithContext_call h) (map batch_request (take j bs))) h
             (batch_request (bs ! j)) = Inr resp"
    proof (intro allI impI)
      fix j assume "j < i"
      with Cons.prems(2) [rule_format, of "Suc j"] Suc show
        "\<exists>resp. DescribeInstancesWithContext env
           ((w @ [DescribeInstancesWithContext_call h (batch_request b)])
              @ map (DescribeInstancesWithContext_call h) (map batch_request (take j bs))) h
           (batch_request (bs ! j)) = Inr resp"
        by simp
    qed
    have at: "DescribeInstancesWithContext env
           ((w @ [DescribeInstancesWithContext_call h (batch_request b)])
              @ map (DescribeInstancesWithContext_call h) (map batch_request (take i bs))) h
           (batch_request (bs ! i)) = Inl e"
      using Cons.prems(3) Suc by simp
    from Cons.IH [OF i before at] first Suc show ?thesis by simp
  qed
qed

lemma instances_of_echo:
  "concat (map Instances (Reservations (echo (batch_request b))))
     = map (\<lambda>i. \<lparr>InstanceId = Some i, Tags = []\<rparr>) b"
  by (simp add: echo_def batch_request_def)

lemma length_ids45: "length ids45 = 45"
  by (simp add: ids45_def)

text \<open>
  C2: with an EC2 client configured and every describe-call answered, the calls made are
  exactly one for each chunk of at most 20 identifiers, in order, and the result is the
  concatenation of the instances of every reservation of every answer, in the order of the
  chunks, then of the reservations, then of the instances, with nothing removed or
  reordered. The chunks are consecutive pieces of the input (their concatenation is the
  input), each of 1 to 20 identifiers, all but the last of exactly 20; for 45 identifiers
  they have the sizes 20, 20 and 5.
\<close>

theorem GetInstancesByInstanceIDs_batches:
  assumes "ec2Client c = Some h"
    and "length resps = length (spec_chunks 20 instanceIDs)"
    and "\<forall>k<length (spec_chunks 20 instanceIDs).
           DescribeInstancesWithContext env
             (w @ map (DescribeInstancesWithContext_call h)
                    (map batch_request (take k (spec_chunks 20 instanceIDs)))) h
             (batch_request (spec_chunks 20 instanceIDs ! k)) = Inr (resps ! k)"
  shows "GetInstancesByInstanceIDs env c instanceIDs w =
           (Ok (concat (map (\<lambda>resp. concat (map Instances (Reservations resp))) resps)),
            w @ map (DescribeInstancesWithContext_call h)
                  (map batch_request (spec_chunks 20 instanceIDs)))
       \<and> concat (spec_chunks 20 instanceIDs) = instanceIDs
       \<and> (\<forall>b \<in> set (spec_chunks 20 instanceIDs). 0 < length b \<and> length b \<le> 20)
       \<and> (\<forall>k. Suc k < length (spec_chunks 20 instanceIDs) \<longrightarrow>
                length (spec_chunks 20 instanceIDs ! k) = 20)
       \<and> (length instanceIDs = 45 \<longrightarrow> map length (spec_chunks 20 instanceIDs) = [20, 20, 5])"
proof -
  have run: "GetInstancesByInstanceIDs env c instanceIDs w =
               describe_batches env h (spec_chunks 20 instanceIDs) [] w"
    using assms(1) batch_loop_describe_batches [of env h instanceIDs 0 "[]" w]
    by (simp add: GetInstancesByInstanceIDs_def batchSize_def)
  have fold: "map instances_of resps = map (\<lambda>resp. concat (map Instances (Reservations resp))) resps"
    by (simp add: instances_of_def)
  have 1: "GetInstancesByInstanceIDs env c instanceIDs w =
           (Ok (concat (map (\<lambda>resp. concat (map Instances (Reservations resp))) resps)),
            w @ map (DescribeInstancesWithContext_call h)
                  (map batch_request (spec_chunks 20 instanceIDs)))"
    using describe_batches_all_ok [OF assms(2) assms(3), of "[]"] run fold by simp
  have 2: "concat (spec_chunks 20 instanceIDs) = instanceIDs"
    by (simp add: concat_spec_chunks)
  have 3: "\<forall>b \<in> set (spec_chunks 20 instanceIDs). 0 < length b \<and> length b \<le> 20"
    using spec_chunks_sizes [of 20 _ instanceIDs] by simp
  have 4: "\<forall>k. Suc k < length (spec_chunks 20 instanceIDs) \<longrightarrow>
                length (spec_chunks 20 instanceIDs ! k) = 20"
    using spec_chunks_full [of 20 _ instanceIDs] by simp
  have 5: "length instanceIDs = 45 \<longrightarrow> map length (spec_chunks 20 instanceIDs) = [20, 20, 5]"
    using spec_chunks_45 [of instanceIDs] by simp
  from 1 2 3 4 5 show ?thesis by blast
qed

theorem GetInstancesByInstanceIDs_batches_witness:
  "fst (GetInstancesByInstanceIDs (stub_remote always_up echo) node_client ids45 [])
     = Ok (map (\<lambda>i. \<lparr>InstanceId = Some i, Tags = []\<rparr>) ids45)
   \<and> length (snd (GetInstancesByInstanceIDs (stub_remote always_up echo) node_client ids45 [])) = 3
   \<and> map length (spec_chunks 20 ids45) = [20, 20, 5]"
proof -
  let ?resps = "map (\<lambda>b. echo (batch_request b)) (spec_chunks 20 ids45)"
  have len: "length ?resps = length (spec_chunks 20 ids45)" by simp
  have ans: "\<forall>k<length (spec_chunks 20 ids45).
           DescribeInstancesWithContext (stub_remote always_up echo)
             ([] @ map (DescribeInstancesWithContext_call
                     (EC2 (Session \<lparr>Region = Some ''eu-west-1'', CredentialsChainVerboseErrors = Some True\<rparr>)))
                    (map batch_request (take k (spec_chunks 20 ids45))))
             (EC2 (Session \<lparr>Region = Some ''eu-west-1'', CredentialsChainVerboseErrors = Some True\<rparr>))
             (batch_request (spec_chunks 20 ids45 ! k)) = Inr (?resps ! k)"
    by (simp add: stub_remote_up)
  note t = GetInstancesByInstanceIDs_batches [OF node_client_simps(5) len ans]
  have m: "map length (spec_chunks 20 ids45) = [20, 20, 5]"
    using t length_ids45 by simp
  then have "length (map length (spec_chunks 20 ids45)) = 3" by simp
  then have l3: "length (spec_chunks 20 ids45) = 3" by simp
  have "concat (map (\<lambda>resp. concat (map Instances (Reservations resp))) ?resps)
          = concat (map (map (\<lambda>i. \<lparr>InstanceId = Some i, Tags = []\<rparr>)) (spec_chunks 20 ids45))"
    by (simp add: instances_of_echo comp_def)
  also have "\<dots> = map (\<lambda>i. \<lparr>InstanceId = Some i, Tags = []\<rparr>) (concat (spec_chunks 20 ids45))"
    by (simp add: map_concat)
  also have "\<dots> = map (\<lambda>i. \<lparr>InstanceId = Some i, Tags = []\<rparr>) ids45"
    using t by simp
  finally have r: "concat (map (\<lambda>resp. concat (map Instances (Reservations resp))) ?resps)
          = map (\<lambda>i. \<lparr>InstanceId = Some i, Tags = []\<rparr>) ids45" .
  from t r l3 m show ?thesis by simp
qed

text \<open>
  C7: when the call for chunk \<open>k\<close> is the first that fails, the batch lookup returns that
  error (wrapped) and no instance list, although the chunks before it were answered, and it
  makes no call after the failed one.
\<close>

theorem GetInstancesByInstanceIDs_chunk_failure:
  assumes "ec2Client c = Some h"
    and "k < length (spec_chunks 20 instanceIDs)"
    and "\<forall>j<k. \<exists>resp.
           DescribeInstancesWithContext env
             (w @ map (DescribeInstancesWithContext_call h)
                    (map batch_request (take j (spec_chunks 20 instanceIDs)))) h
             (batch_request (spec_chunks 20 instanceIDs ! j)) = Inr resp"
    and "DescribeInstancesWithContext env
           (w @ map (DescribeInstancesWithContext_call h)
                  (map batch_request (take k (spec_chunks 20 instanceIDs)))) h
           (batch_request (spec_chunks 20 instanceIDs ! k)) = Inl e"
  shows "GetInstancesByInstanceIDs env c instanceIDs w =
           (Err (Wrapf ''describing instances: '' e),
            w @ map (DescribeInstancesWithContext_call h)
                  (map batch_request (take (Suc k) (spec_chunks 20 instanceIDs))))"
proof -
  have run: "GetInstancesByInstanceIDs env c instanceIDs w =
               describe_batches env h (spec_chunks 20 instanceIDs) [] w"
    using assms(1) batch_loop_describe_batches [of env h instanceIDs 0 "[]" w]
    by (simp add: GetInstancesByInstanceIDs_def batchSize_def)
  show ?thesis
    using describe_batches_first_failure [OF assms(2) assms(3) assms(4), of "[]"] run by simp
qed

theorem GetInstancesByInstanceIDs_chunk_failure_witness:
  "GetInstancesByInstanceIDs (stub_remote (down_at 1) echo) node_client ids45 [] =
     (Err (Wrapf ''describing instances: '' (SdkError ''unavailable'')),
      map (DescribeInstancesWithContext_call
             (EC2 (Session \<lparr>Region = Some ''eu-west-1'', CredentialsChainVerboseErrors = Some True\<rparr>)))
          (map batch_request (take 2 (spec_chunks 20 ids45))))"
proof -
  have "length (map length (spec_chunks 20 ids45)) = 3"
    using spec_chunks_45 [OF length_ids45] by simp
  then have l3: "length (spec_chunks 20 ids45) = 3" by simp
  then have k: "1 < length (spec_chunks 20 ids45)" by simp
  have before: "\<forall>j<1. \<exists>resp.
           DescribeInstancesWithContext (stub_remote (down_at 1) echo)
             ([] @ map (DescribeInstancesWithContext_call
                     (EC2 (Session \<lparr>Region = Some ''eu-west-1'', CredentialsChainVerboseErrors = Some True\<rparr>)))
                    (map batch_request (take j (spec_chunks 20 ids45))))
             (EC2 (Session \<lparr>Region = Some ''eu-west-1'', CredentialsChainVerboseErrors = Some True\<rparr>))
             (batch_request (spec_chunks 20 ids45 ! j)) = Inr resp"
    by (simp add: stub_remote_def down_at_def)
  have at: "DescribeInstancesWithContext (stub_remote (down_at 1) echo)
             ([] @ map (DescribeInstancesWithContext_call
                     (EC2 (Session \<lparr>Region = Some ''eu-west-1'', CredentialsChainVerboseErrors = Some True\<rparr>)))
                    (map batch_request (take 1 (spec_chunks 20 ids45))))
             (EC2 (Session \<lparr>Region = Some ''eu-west-1'', CredentialsChainVerboseErrors = Some True\<rparr>))
             (batch_request (spec_chunks 20 ids45 ! 1)) = Inl (SdkError ''unavailable'')"
    using l3 by (simp add: stub_remote_def down_at_def)
  show ?thesis
    using GetInstancesByInstanceIDs_chunk_failure [OF node_client_simps(5) k before at]
    by (simp add: numeral_2_eq_2)
qed

end
